theory Spec2Isabelle
  imports Complex_Main
begin

section \<open>The CO2 emission calculator of streamlit_app.py\<close>

text \<open>
  The program multiplies three consumption figures by fixed emission factors, sums the
  products, and shows them in a table, a bar chart and a PDF report.

  Numbers are Python floats in the source. They are modelled as exact reals, so every
  statement below is one of exact arithmetic; rounding of binary floating point is outside
  the model. Python raises on a missing dictionary key and on division by zero; both are
  values of \<open>py_error\<close> here. Dictionaries keep insertion order, which the chart and the
  tables depend on, so a dictionary is an association list without repeated keys.

  Line 39 of the source, in \<^verbatim>\<open>maak_staafdiagram\<close>, reads \<^verbatim>\<open>if not emissies_data\<close>
  without the colon that ends the head of a conditional. The function does not parse, and
  has no behaviour to translate: it returns neither None nor a chart. The chart is
  therefore not part of the model. The page is modelled without the call at line 314, and
  the other functions, which are well formed, are modelled as they are written.
\<close>

subsection \<open>Python values\<close>

datatype py_error = KeyError string | ZeroDivisionError

type_synonym dict = "(string \<times> real) list"

text \<open>\<^verbatim>\<open>d[k]\<close>: the value stored under the key, or KeyError.\<close>

definition dict_get :: "dict \<Rightarrow> string \<Rightarrow> py_error + real" where
  "dict_get d k = (case map_of d k of None \<Rightarrow> Inl (KeyError k) | Some v \<Rightarrow> Inr v)"

text \<open>\<^verbatim>\<open>d[k] = v\<close>: an existing key keeps its position, a new key goes to the end.\<close>

fun dict_set :: "dict \<Rightarrow> string \<Rightarrow> real \<Rightarrow> dict" where
  "dict_set [] k v = [(k, v)]"
| "dict_set ((k', v') # d) k v =
     (if k' = k then (k, v) # d else (k', v') # dict_set d k v)"

definition keys :: "dict \<Rightarrow> string list" where
  "keys d = map fst d"

definition values_of :: "dict \<Rightarrow> real list" where
  "values_of d = map snd d"

text \<open>Sequencing of computations that may raise.\<close>

definition bind_err :: "py_error + 'a \<Rightarrow> ('a \<Rightarrow> py_error + 'b) \<Rightarrow> py_error + 'b" where
  "bind_err r f = (case r of Inl e \<Rightarrow> Inl e | Inr a \<Rightarrow> f a)"

text \<open>\<^verbatim>\<open>a / b\<close> on floats raises ZeroDivisionError when \<open>b\<close> is zero.\<close>

definition py_div :: "real \<Rightarrow> real \<Rightarrow> py_error + real" where
  "py_div a b = (if b = 0 then Inl ZeroDivisionError else Inr (a / b))"

text \<open>
  The two characters of the source's strings outside ASCII, as their UTF-8 bytes:
  superscript three (in the cubic metre) and subscript two (in CO2).
\<close>

definition sup3 :: string where
  "sup3 = [CHR 0xC2, CHR 0xB3]"

definition sub2 :: string where
  "sub2 = [CHR 0xE2, CHR 0x82, CHR 0x82]"

subsection \<open>Fixed-point formatting\<close>

text \<open>
  \<^verbatim>\<open>f'{x:.2f}'\<close> prints the decimal number with the given count of fraction digits that is
  nearest to \<open>x\<close>, a tie going to the even last digit, with a minus sign for a negative
  \<open>x\<close>. On exact reals a decimal such as 0.35 is a tie at one fraction digit; the float
  nearest to 0.35 is not, so the last digit printed can differ there from Python's.
\<close>

definition round_half_even :: "real \<Rightarrow> int" where
  "round_half_even x =
     (let f = \<lfloor>x\<rfloor>; r = x - of_int f in
      if r < 1 / 2 then f else if 1 / 2 < r then f + 1
      else if even f then f else f + 1)"

definition digit_char :: "nat \<Rightarrow> char" where
  "digit_char n = ''0123456789'' ! n"

fun digits :: "nat \<Rightarrow> string" where
  "digits n =
     (if n < 10 then [digit_char n] else digits (n div 10) @ [digit_char (n mod 10)])"

declare digits.simps [simp del]

definition zfill :: "nat \<Rightarrow> string \<Rightarrow> string" where
  "zfill d s = replicate (d - length s) (CHR ''0'') @ s"

text \<open>The decimal notation of \<open>n / 10 ^ d\<close> with \<open>d\<close> fraction digits.\<close>

definition fixed_point :: "nat \<Rightarrow> nat \<Rightarrow> string" where
  "fixed_point d n =
     digits (n div 10 ^ d) @ (if d = 0 then [] else ''.'' @ zfill d (digits (n mod 10 ^ d)))"

definition format_f :: "nat \<Rightarrow> real \<Rightarrow> string" where
  "format_f d x =
     (if x < 0 then ''-'' else []) @ fixed_point d (nat (round_half_even (\<bar>x\<bar> * 10 ^ d)))"

subsection \<open>The emission factors and the calculator\<close>

definition EMISSIEFACTOREN :: dict where
  "EMISSIEFACTOREN =
     [(''Aardgas (m'' @ sup3 @ '')'', 2.085),
      (''Elektriciteit - Grijze stroom (kWh)'', 0.536),
      (''Elektriciteit - Groene stroom (kWh)'', 0.000),
      (''Diesel (liter)'', 3.256),
      (''Benzine (liter)'', 2.821)]"

text \<open>
  The body of \<^verbatim>\<open>bereken_emissies\<close>, with the module's global table as an argument, so
  that what the function reads from the table can be stated.
\<close>

definition bereken_emissies_in ::
    "dict \<Rightarrow> real \<Rightarrow> real \<Rightarrow> string \<Rightarrow> real \<Rightarrow> py_error + dict" where
  "bereken_emissies_in tabel gas_m3 elektra_kwh stroom_type diesel_liter =
     bind_err
       (if gas_m3 > 0
        then bind_err (dict_get tabel (''Aardgas (m'' @ sup3 @ '')''))
               (\<lambda>factor. Inr (dict_set [] ''Aardgas'' (gas_m3 * factor)))
        else Inr [])
       (\<lambda>emissies1.
     bind_err
       (if elektra_kwh > 0
        then (let factor_key = ''Elektriciteit - '' @ stroom_type @ '' (kWh)'' in
              bind_err (dict_get tabel factor_key)
                (\<lambda>factor. Inr (dict_set emissies1 ''Elektriciteit'' (elektra_kwh * factor))))
        else Inr emissies1)
       (\<lambda>emissies2.
        if diesel_liter > 0
        then bind_err (dict_get tabel ''Diesel (liter)'')
               (\<lambda>factor. Inr (dict_set emissies2 ''Diesel'' (diesel_liter * factor)))
        else Inr emissies2))"

definition bereken_emissies :: "real \<Rightarrow> real \<Rightarrow> string \<Rightarrow> real \<Rightarrow> py_error + dict" where
  "bereken_emissies = bereken_emissies_in EMISSIEFACTOREN"

text \<open>The options of the tariff selector of the form.\<close>

definition stroom_opties :: "string list" where
  "stroom_opties = [''Grijze stroom'', ''Groene stroom'']"

subsection \<open>The report\<close>

text \<open>
  \<^verbatim>\<open>genereer_pdf\<close> builds three tables of strings and hands them to the PDF library. The
  model is the content of the three tables; the title with its time stamp, the styles and
  the rendering to bytes are left out. The consumption figures come in a dictionary with
  the three fixed keys that \<^verbatim>\<open>main\<close> writes; it is a record here.
\<close>

record verbruik_data =
  gas :: real
  elektra :: real
  diesel :: real

record rapport =
  verbruik_tabel_data :: "string list list"
  emissie_tabel_data :: "string list list"
  factoren_tabel_data :: "string list list"

text \<open>
  The loop of lines 135 to 141, appending one row for each entry. The division is the
  only step of the report that could raise.
\<close>

fun emissie_rijen ::
    "string list list \<Rightarrow> dict \<Rightarrow> real \<Rightarrow> py_error + string list list" where
  "emissie_rijen tabel [] totaal_emissie = Inr tabel"
| "emissie_rijen tabel ((categorie, emissie) # rest) totaal_emissie =
     bind_err
       (if totaal_emissie > 0
        then bind_err (py_div emissie totaal_emissie) (\<lambda>q. Inr (q * 100))
        else Inr 0)
       (\<lambda>percentage.
          emissie_rijen
            (tabel @ [[categorie, format_f 2 emissie, format_f 1 percentage @ ''%'']])
            rest totaal_emissie)"

text \<open>The loop of lines 176 and 177.\<close>

fun factoren_rijen :: "string list list \<Rightarrow> dict \<Rightarrow> string list list" where
  "factoren_rijen tabel [] = tabel"
| "factoren_rijen tabel ((naam, factor) # rest) =
     factoren_rijen (tabel @ [[naam, format_f 3 factor, ''kg CO'' @ sub2 @ ''-eq'']]) rest"

definition genereer_pdf ::
    "dict \<Rightarrow> verbruik_data \<Rightarrow> real \<Rightarrow> string \<Rightarrow> py_error + rapport" where
  "genereer_pdf emissies_data verbruik totaal_emissie stroom_type =
     bind_err
       (emissie_rijen
          [[''Categorie'', ''CO'' @ sub2 @ ''-emissies (kg CO'' @ sub2 @ ''-eq)'', ''Percentage'']]
          emissies_data totaal_emissie)
       (\<lambda>rijen. Inr
     \<lparr>verbruik_tabel_data =
        [[''Energiedrager'', ''Verbruik'', ''Eenheid''],
         [''Aardgas'', format_f 2 (gas verbruik), ''m'' @ sup3],
         [''Elektriciteit'', format_f 2 (elektra verbruik), ''kWh''],
         [''Stroomtype'', stroom_type, []],
         [''Diesel'', format_f 2 (diesel verbruik), ''liter'']],
      emissie_tabel_data =
        rijen @ [[''TOTAAL'', format_f 2 totaal_emissie, ''100%'']],
      factoren_tabel_data =
        factoren_rijen [[''Energiedrager'', ''Emissiefactor'', ''Eenheid'']] EMISSIEFACTOREN\<rparr>)"

subsection \<open>The page\<close>

text \<open>
  One run of \<^verbatim>\<open>main\<close>: the values of the widgets come in, the session state is read and
  written, and the page is drawn. Streamlit runs the script again on every interaction;
  the session state is what one run leaves to the next. The four keys of the session state
  are written together, so the state is either absent or a record of the four.
\<close>

record inputs =
  gas_verbruik :: real
  elektra_verbruik :: real
  stroom_type :: string
  diesel_verbruik :: real
  button :: bool

record session =
  ss_emissies :: dict
  ss_totaal :: real
  ss_verbruik :: verbruik_data
  ss_stroom_type :: string

record resultaten =
  metric_value :: string
  df_categorie :: "string list"
  df_emissies :: "string list"
  df_percentage :: "string list"
  pdf_buffer :: rapport

text \<open>
  What a run did: whether the warning was shown, the session state it leaves, and either
  the exception that ended it or the results section it drew, if it drew one.
\<close>

record run =
  warning :: bool
  session_state :: "session option"
  outcome :: "py_error + resultaten option"

text \<open>The list comprehension of lines 307 and 308; the division has no guard.\<close>

fun percentage_kolom :: "real list \<Rightarrow> real \<Rightarrow> py_error + string list" where
  "percentage_kolom [] totaal = Inr []"
| "percentage_kolom (v # vs) totaal =
     bind_err (py_div v totaal)
       (\<lambda>q. bind_err (percentage_kolom vs totaal)
          (\<lambda>rest. Inr ((format_f 1 (q * 100) @ ''%'') # rest)))"

text \<open>
  Lines 290 to 339, for a session state that holds a result: the metric, the results
  table and the report, without the chart of lines 314 to 316.
\<close>

definition toon_resultaten :: "session \<Rightarrow> py_error + resultaten" where
  "toon_resultaten s =
     bind_err (percentage_kolom (values_of (ss_emissies s)) (ss_totaal s))
       (\<lambda>kolom.
     bind_err
       (genereer_pdf (ss_emissies s) (ss_verbruik s) (ss_totaal s) (ss_stroom_type s))
       (\<lambda>pdf. Inr
          \<lparr>metric_value = format_f 2 (ss_totaal s) @ '' kg CO'' @ sub2 @ ''-eq'',
           df_categorie = keys (ss_emissies s),
           df_emissies = map (format_f 2) (values_of (ss_emissies s)),
           df_percentage = kolom,
           pdf_buffer = pdf\<rparr>))"

text \<open>Lines 271 to 287: what pressing the button does to the session state.\<close>

definition bereken_knop :: "session option \<Rightarrow> inputs \<Rightarrow> bool \<times> (py_error + session option)" where
  "bereken_knop ss inp =
     (if button inp then
        (if gas_verbruik inp = 0 \<and> elektra_verbruik inp = 0 \<and> diesel_verbruik inp = 0
         then (True, Inr ss)
         else (False,
           bind_err
             (bereken_emissies (gas_verbruik inp) (elektra_verbruik inp) (stroom_type inp)
                (diesel_verbruik inp))
             (\<lambda>emissies.
                (let totaal = sum_list (values_of emissies)
                 in Inr (Some \<lparr>ss_emissies = emissies,
                                ss_totaal = totaal,
                                ss_verbruik = \<lparr>gas = gas_verbruik inp,
                                                elektra = elektra_verbruik inp,
                                                diesel = diesel_verbruik inp\<rparr>,
                                ss_stroom_type = stroom_type inp\<rparr>)))))
      else (False, Inr ss))"

definition main :: "session option \<Rightarrow> inputs \<Rightarrow> run" where
  "main ss inp =
     (case bereken_knop ss inp of
        (w, Inl e) \<Rightarrow> \<lparr>warning = w, session_state = ss, outcome = Inl e\<rparr>
      | (w, Inr ss') \<Rightarrow>
          \<lparr>warning = w, session_state = ss',
           outcome =
             (case ss' of
                None \<Rightarrow> Inr None
              | Some s \<Rightarrow> bind_err (toon_resultaten s) (\<lambda>r. Inr (Some r)))\<rparr>)"

text \<open>A sequence of runs in one session, each starting from the state the last one left.\<close>

definition runs :: "session option \<Rightarrow> inputs list \<Rightarrow> session option" where
  "runs ss inps = foldl (\<lambda>s inp. session_state (main s inp)) ss inps"

text \<open>The report that a run offered for download, if it offered one.\<close>

definition document :: "run \<Rightarrow> rapport option" where
  "document r =
     (case outcome r of
        Inl e \<Rightarrow> None
      | Inr None \<Rightarrow> None
      | Inr (Some res) \<Rightarrow> Some (pdf_buffer res))"

text \<open>
  The form gives non-negative quantities (\<^verbatim>\<open>min_value=0.0\<close>) and one of the two tariffs.
\<close>

definition form_input :: "inputs \<Rightarrow> bool" where
  "form_input inp \<longleftrightarrow>
     0 \<le> gas_verbruik inp \<and> 0 \<le> elektra_verbruik inp \<and> 0 \<le> diesel_verbruik inp \<and>
     stroom_type inp \<in> set stroom_opties"

subsection \<open>Notions used to state the properties\<close>

text \<open>The factor the calculator applies to electricity under each tariff.\<close>

definition stroom_factor :: "string \<Rightarrow> real" where
  "stroom_factor tarief = (if tarief = ''Grijze stroom'' then 0.536 else 0)"

text \<open>
  Reading a printed number back: the value of a string of decimal digits, the value of a
  string with a decimal point, and the count of digits after the point.
\<close>

definition cijfer_waarde :: "char \<Rightarrow> nat" where
  "cijfer_waarde c = of_char c - 48"

definition lees_cijfers :: "string \<Rightarrow> nat" where
  "lees_cijfers s = foldl (\<lambda>a c. 10 * a + cijfer_waarde c) 0 s"

definition voor_punt :: "string \<Rightarrow> string" where
  "voor_punt s = takeWhile (\<lambda>c. c \<noteq> CHR ''.'') s"

definition na_punt :: "string \<Rightarrow> string" where
  "na_punt s = drop 1 (dropWhile (\<lambda>c. c \<noteq> CHR ''.'') s)"

definition lees_f :: "string \<Rightarrow> real" where
  "lees_f s = real (lees_cijfers (voor_punt s)) +
              real (lees_cijfers (na_punt s)) / 10 ^ length (na_punt s)"

definition decimalen :: "string \<Rightarrow> nat" where
  "decimalen s = length (na_punt s)"

text \<open>The number a cell of a percentage column shows: the text before the percent sign.\<close>

definition lees_percentage :: "string \<Rightarrow> real" where
  "lees_percentage s = lees_f (butlast s)"

text \<open>
  The percentage column of the emissions table of a report: the third cell of every row
  between the header and the totals row. Its sum is the sum of the numbers shown.
\<close>

definition percentage_cellen :: "rapport \<Rightarrow> string list" where
  "percentage_cellen r = map (\<lambda>rij. rij ! 2) (butlast (tl (emissie_tabel_data r)))"

definition som_percentages :: "rapport \<Rightarrow> real" where
  "som_percentages r = sum_list (map lees_percentage (percentage_cellen r))"

text \<open>The session state holds a total that is the sum of the stored emissions.\<close>

definition totaal_klopt :: "session option \<Rightarrow> bool" where
  "totaal_klopt ss =
     (case ss of None \<Rightarrow> True
      | Some s \<Rightarrow> ss_totaal s = sum_list (values_of (ss_emissies s)))"

text \<open>
  What a session state holds after runs on values from the form: a mapping of one to three
  entries, none negative, with its sum as the total.
\<close>

definition geldige_sessie :: "session option \<Rightarrow> bool" where
  "geldige_sessie ss =
     (case ss of None \<Rightarrow> True
      | Some s \<Rightarrow>
          ss_emissies s \<noteq> [] \<and> length (ss_emissies s) \<le> 3 \<and>
          list_all (\<lambda>x. 0 \<le> snd x) (ss_emissies s) \<and>
          ss_totaal s = sum_list (values_of (ss_emissies s)))"

subsection \<open>Facts about the calculator\<close>

lemma factor_gas: "dict_get EMISSIEFACTOREN (''Aardgas (m'' @ sup3 @ '')'') = Inr 2.085"
  by (simp add: dict_get_def EMISSIEFACTOREN_def sup3_def)

lemma factor_grijs:
  "dict_get EMISSIEFACTOREN (''Elektriciteit - '' @ ''Grijze stroom'' @ '' (kWh)'') = Inr 0.536"
  by (simp add: dict_get_def EMISSIEFACTOREN_def sup3_def)

lemma factor_groen:
  "dict_get EMISSIEFACTOREN (''Elektriciteit - '' @ ''Groene stroom'' @ '' (kWh)'') = Inr 0"
  by (simp add: dict_get_def EMISSIEFACTOREN_def sup3_def)

lemma factor_diesel: "dict_get EMISSIEFACTOREN ''Diesel (liter)'' = Inr 3.256"
  by (simp add: dict_get_def EMISSIEFACTOREN_def sup3_def)

lemma bereken_emissies_eq:
  assumes "tarief \<in> set stroom_opties"
  shows "bereken_emissies gas_m3 elektra_kwh tarief diesel_liter =
     Inr ((if gas_m3 > 0 then [(''Aardgas'', gas_m3 * 2.085)] else []) @
          (if elektra_kwh > 0
           then [(''Elektriciteit'', elektra_kwh * stroom_factor tarief)] else []) @
          (if diesel_liter > 0 then [(''Diesel'', diesel_liter * 3.256)] else []))"
proof -
  from assms have "tarief = ''Grijze stroom'' \<or> tarief = ''Groene stroom''"
    by (simp add: stroom_opties_def)
  then show ?thesis
  proof
    assume "tarief = ''Grijze stroom''"
    then show ?thesis
      unfolding bereken_emissies_def bereken_emissies_in_def Let_def
      using factor_gas factor_grijs factor_diesel
      by (simp add: bind_err_def stroom_factor_def)
  next
    assume "tarief = ''Groene stroom''"
    then show ?thesis
      unfolding bereken_emissies_def bereken_emissies_in_def Let_def
      using factor_gas factor_groen factor_diesel
      by (simp add: bind_err_def stroom_factor_def)
  qed
qed

subsection \<open>Facts about fixed-point formatting\<close>

lemma round_half_even_near: "\<bar>of_int (round_half_even x) - x\<bar> \<le> 1 / 2"
proof -
  have "of_int \<lfloor>x\<rfloor> \<le> x" "x < of_int \<lfloor>x\<rfloor> + 1" by linarith+
  then show ?thesis
    unfolding round_half_even_def Let_def by (auto simp: abs_le_iff)
qed

lemma round_half_even_nonneg: "0 \<le> x \<Longrightarrow> 0 \<le> round_half_even x"
proof -
  assume "0 \<le> x"
  then have "0 \<le> \<lfloor>x\<rfloor>" by simp
  then show ?thesis
    unfolding round_half_even_def Let_def by auto
qed

lemma below_ten: "n < 10 \<Longrightarrow> n \<in> {0, 1, 2, 3, 4, 5, 6, 7, 8, 9::nat}"
  by auto

lemma cijfer_waarde_digit_char: "n < 10 \<Longrightarrow> cijfer_waarde (digit_char n) = n"
  by (drule below_ten) (auto simp: digit_char_def cijfer_waarde_def)

lemma digit_char_not_point: "n < 10 \<Longrightarrow> digit_char n \<noteq> CHR ''.''"
  by (drule below_ten) (auto simp: digit_char_def)

lemma lees_cijfers_snoc: "lees_cijfers (s @ [c]) = 10 * lees_cijfers s + cijfer_waarde c"
  by (simp add: lees_cijfers_def)

lemma lees_cijfers_digits: "lees_cijfers (digits n) = n"
proof (induction n rule: digits.induct)
  case (1 n)
  show ?case
  proof (cases "n < 10")
    case True
    then show ?thesis
      by (subst digits.simps) (simp add: lees_cijfers_def cijfer_waarde_digit_char)
  next
    case False
    with 1 have "lees_cijfers (digits (n div 10)) = n div 10" by simp
    with False show ?thesis
      by (subst digits.simps) (simp add: lees_cijfers_snoc cijfer_waarde_digit_char)
  qed
qed

lemma no_point_in_digits: "CHR ''.'' \<notin> set (digits n)"
proof (induction n rule: digits.induct)
  case (1 n)
  show ?case
  proof (cases "n < 10")
    case True
    then show ?thesis
      using digit_char_not_point [of n] by (subst digits.simps) auto
  next
    case False
    with 1 have "CHR ''.'' \<notin> set (digits (n div 10))" by simp
    moreover have "digit_char (n mod 10) \<noteq> CHR ''.''"
      by (rule digit_char_not_point) simp
    ultimately show ?thesis
      using False by (subst digits.simps) auto
  qed
qed

lemma length_digits: "0 < d \<Longrightarrow> n < 10 ^ d \<Longrightarrow> length (digits n) \<le> d"
proof (induction n arbitrary: d rule: digits.induct)
  case (1 n)
  show ?case
  proof (cases "n < 10")
    case True
    with 1 show ?thesis by (subst digits.simps) simp
  next
    case False
    obtain e where d: "d = Suc e" using 1(2) by (cases d) auto
    from False 1(3) d have "0 < e" by (cases e) auto
    moreover from 1(3) d have "n div 10 < 10 ^ e"
      by (simp add: less_mult_imp_div_less mult.commute)
    ultimately have "length (digits (n div 10)) \<le> e"
      using 1(1) False by simp
    with False d show ?thesis by (subst digits.simps) simp
  qed
qed

lemma lees_cijfers_zeros: "lees_cijfers (replicate k (CHR ''0'') @ s) = lees_cijfers s"
proof -
  have "foldl (\<lambda>a c. 10 * a + cijfer_waarde c) 0 (replicate k (CHR ''0'')) = 0"
    by (induction k) (simp_all add: cijfer_waarde_def)
  then show ?thesis by (simp add: lees_cijfers_def)
qed

lemma takeWhile_upto: "c \<notin> set xs \<Longrightarrow> takeWhile (\<lambda>x. x \<noteq> c) (xs @ c # ys) = xs"
  by (induction xs) auto

lemma dropWhile_upto: "c \<notin> set xs \<Longrightarrow> dropWhile (\<lambda>x. x \<noteq> c) (xs @ c # ys) = c # ys"
  by (induction xs) auto

lemma voor_punt_fixed_point:
  "0 < d \<Longrightarrow> voor_punt (fixed_point d n) = digits (n div 10 ^ d)"
  by (simp add: voor_punt_def fixed_point_def takeWhile_upto no_point_in_digits)

lemma na_punt_fixed_point:
  "0 < d \<Longrightarrow> na_punt (fixed_point d n) = zfill d (digits (n mod 10 ^ d))"
  by (simp add: na_punt_def fixed_point_def dropWhile_upto no_point_in_digits)

lemma length_zfill_digits:
  assumes "0 < d"
  shows "length (zfill d (digits (n mod 10 ^ d))) = d"
proof -
  have "n mod 10 ^ d < 10 ^ d" by simp
  with assms have "length (digits (n mod 10 ^ d)) \<le> d" by (rule length_digits)
  then show ?thesis by (simp add: zfill_def)
qed

lemma decimalen_fixed_point: "0 < d \<Longrightarrow> decimalen (fixed_point d n) = d"
  by (simp add: decimalen_def na_punt_fixed_point length_zfill_digits)

lemma lees_f_fixed_point:
  assumes "0 < d"
  shows "lees_f (fixed_point d n) = real n / 10 ^ d"
proof -
  have "lees_f (fixed_point d n) = real (n div 10 ^ d) + real (n mod 10 ^ d) / 10 ^ d"
    using assms
    by (simp add: lees_f_def voor_punt_fixed_point na_punt_fixed_point length_zfill_digits
        lees_cijfers_digits)
       (simp add: zfill_def lees_cijfers_zeros lees_cijfers_digits)
  also have "\<dots> = (real (n div 10 ^ d) * 10 ^ d + real (n mod 10 ^ d)) / 10 ^ d"
    by (simp add: add_divide_distrib)
  also have "real (n div 10 ^ d) * 10 ^ d + real (n mod 10 ^ d)
      = real (n div 10 ^ d * 10 ^ d + n mod 10 ^ d)"
    by (simp only: of_nat_add of_nat_mult of_nat_power of_nat_numeral)
  also have "n div 10 ^ d * 10 ^ d + n mod 10 ^ d = n"
    by (rule div_mult_mod_eq)
  finally show ?thesis .
qed

lemma format_f_nonneg:
  "0 \<le> x \<Longrightarrow> format_f d x = fixed_point d (nat (round_half_even (x * 10 ^ d)))"
  by (simp add: format_f_def)

lemma lees_f_format_f:
  assumes "0 \<le> x" "0 < d"
  shows "lees_f (format_f d x) = of_int (round_half_even (x * 10 ^ d)) / 10 ^ d"
proof -
  have "0 \<le> round_half_even (x * 10 ^ d)"
    using assms by (intro round_half_even_nonneg) simp
  then show ?thesis
    using assms by (simp add: format_f_nonneg lees_f_fixed_point)
qed

lemma format_f_near:
  assumes "0 \<le> x" "0 < d"
  shows "\<bar>lees_f (format_f d x) - x\<bar> \<le> 1 / (2 * 10 ^ d)"
proof -
  define r :: real where "r = of_int (round_half_even (x * 10 ^ d))"
  define p :: real where "p = 10 ^ d"
  have p: "0 < p" by (simp add: p_def)
  have "\<bar>r - x * p\<bar> \<le> 1 / 2"
    unfolding r_def p_def by (rule round_half_even_near)
  then have "\<bar>r - x * p\<bar> / p \<le> 1 / 2 / p"
    using p by (intro divide_right_mono) simp_all
  moreover have "r / p - x = (r - x * p) / p"
    using p by (simp add: diff_divide_distrib)
  then have "\<bar>r / p - x\<bar> = \<bar>r - x * p\<bar> / p"
    using p by (simp add: abs_divide)
  moreover have "lees_f (format_f d x) = r / p"
    using assms by (simp add: lees_f_format_f r_def p_def)
  ultimately show ?thesis
    by (simp add: p_def)
qed

lemma decimalen_format_f: "0 \<le> x \<Longrightarrow> 0 < d \<Longrightarrow> decimalen (format_f d x) = d"
  by (simp add: format_f_nonneg decimalen_fixed_point)

subsection \<open>Evaluating the formatting on numerals\<close>

lemma replicate_numeral: "replicate (numeral k) x = x # replicate (pred_numeral k) x"
  by (simp add: numeral_eq_Suc)

lemmas format_eval = format_f_def fixed_point_def round_half_even_def digits.simps zfill_def
  digit_char_def Let_def replicate_numeral

lemma format_nul_1: "format_f 1 0 = ''0.0''"
  by (simp add: format_eval)

lemma format_nul_2: "format_f 2 0 = ''0.00''"
  by (simp add: format_eval)

subsection \<open>Facts about the page and the report\<close>

lemma percentage_kolom_ok:
  "totaal \<noteq> 0 \<Longrightarrow>
   percentage_kolom vs totaal = Inr (map (\<lambda>v. format_f 1 (v / totaal * 100) @ ''%'') vs)"
  by (induction vs) (simp_all add: bind_err_def py_div_def)

lemma percentage_kolom_nul: "percentage_kolom (v # vs) 0 = Inl ZeroDivisionError"
  by (simp add: bind_err_def py_div_def)

lemma emissie_rijen_eq:
  "emissie_rijen tabel es t =
     Inr (tabel @ map (\<lambda>(c, e). [c, format_f 2 e,
                           format_f 1 (if 0 < t then e / t * 100 else 0) @ ''%'']) es)"
  by (induction es arbitrary: tabel) (auto simp: bind_err_def py_div_def)

lemma factoren_rijen_eq:
  "factoren_rijen tabel fs =
     tabel @ map (\<lambda>(naam, factor). [naam, format_f 3 factor, ''kg CO'' @ sub2 @ ''-eq'']) fs"
  by (induction fs arbitrary: tabel) auto

lemma genereer_pdf_eq:
  "genereer_pdf es v t tarief =
     Inr \<lparr>verbruik_tabel_data =
        [[''Energiedrager'', ''Verbruik'', ''Eenheid''],
         [''Aardgas'', format_f 2 (gas v), ''m'' @ sup3],
         [''Elektriciteit'', format_f 2 (elektra v), ''kWh''],
         [''Stroomtype'', tarief, []],
         [''Diesel'', format_f 2 (diesel v), ''liter'']],
      emissie_tabel_data =
        [''Categorie'', ''CO'' @ sub2 @ ''-emissies (kg CO'' @ sub2 @ ''-eq)'', ''Percentage'']
        # map (\<lambda>(c, e). [c, format_f 2 e,
                        format_f 1 (if 0 < t then e / t * 100 else 0) @ ''%'']) es
        @ [[''TOTAAL'', format_f 2 t, ''100%'']],
      factoren_tabel_data =
        [''Energiedrager'', ''Emissiefactor'', ''Eenheid'']
        # map (\<lambda>(naam, factor). [naam, format_f 3 factor, ''kg CO'' @ sub2 @ ''-eq''])
            EMISSIEFACTOREN\<rparr>"
  by (simp add: genereer_pdf_def emissie_rijen_eq factoren_rijen_eq bind_err_def)

lemma main_zonder_knop:
  "\<not> button inp \<Longrightarrow> session_state (main ss inp) = ss \<and> \<not> warning (main ss inp)"
  by (simp add: main_def bereken_knop_def)


lemma main_bereken:
  assumes "button inp"
    and "\<not> (gas_verbruik inp = 0 \<and> elektra_verbruik inp = 0 \<and> diesel_verbruik inp = 0)"
    and "bereken_emissies (gas_verbruik inp) (elektra_verbruik inp) (stroom_type inp)
           (diesel_verbruik inp) = Inr es"
    and "s = \<lparr>ss_emissies = es, ss_totaal = sum_list (values_of es),
              ss_verbruik = \<lparr>gas = gas_verbruik inp, elektra = elektra_verbruik inp,
                              diesel = diesel_verbruik inp\<rparr>,
              ss_stroom_type = stroom_type inp\<rparr>"
  shows "main ss inp =
     \<lparr>warning = False, session_state = Some s,
      outcome = bind_err (toon_resultaten s) (\<lambda>r. Inr (Some r))\<rparr>"
  using assms by (simp add: main_def bereken_knop_def bind_err_def)

lemma main_fout:
  assumes "button inp"
    and "\<not> (gas_verbruik inp = 0 \<and> elektra_verbruik inp = 0 \<and> diesel_verbruik inp = 0)"
    and "bereken_emissies (gas_verbruik inp) (elektra_verbruik inp) (stroom_type inp)
           (diesel_verbruik inp) = Inl e"
  shows "main ss inp = \<lparr>warning = False, session_state = ss, outcome = Inl e\<rparr>"
  using assms by (simp add: main_def bereken_knop_def bind_err_def)

lemma main_totaal_klopt: "totaal_klopt ss \<Longrightarrow> totaal_klopt (session_state (main ss inp))"
proof -
  assume inv: "totaal_klopt ss"
  show ?thesis
  proof (cases "button inp \<and>
      \<not> (gas_verbruik inp = 0 \<and> elektra_verbruik inp = 0 \<and> diesel_verbruik inp = 0)")
    case False
    then have "session_state (main ss inp) = ss"
      by (auto simp: main_def bereken_knop_def)
    with inv show ?thesis by simp
  next
    case True
    show ?thesis
    proof (cases "bereken_emissies (gas_verbruik inp) (elektra_verbruik inp) (stroom_type inp)
           (diesel_verbruik inp)")
      case (Inl e)
      with True have "session_state (main ss inp) = ss"
        by (simp add: main_fout)
      with inv show ?thesis by simp
    next
      case (Inr es)
      with True show ?thesis
        by (simp add: main_bereken [OF _ _ Inr refl] totaal_klopt_def)
    qed
  qed
qed

lemma runs_totaal_klopt: "totaal_klopt ss \<Longrightarrow> totaal_klopt (runs ss inps)"
  unfolding runs_def
  by (induction inps arbitrary: ss) (simp_all add: main_totaal_klopt)

lemma toon_resultaten_Inr:
  assumes "toon_resultaten s = Inr res"
  shows "metric_value res = format_f 2 (ss_totaal s) @ '' kg CO'' @ sub2 @ ''-eq''"
    and "last (emissie_tabel_data (pdf_buffer res)) = [''TOTAAL'', format_f 2 (ss_totaal s), ''100%'']"
  using assms
  by (auto simp: toon_resultaten_def genereer_pdf_eq bind_err_def split: sum.splits)

lemma outcome_shown:
  assumes "outcome (main ss inp) = Inr (Some res)"
  shows "\<exists>s. session_state (main ss inp) = Some s \<and> toon_resultaten s = Inr res"
  using assms
  by (auto simp: main_def bind_err_def split: prod.splits sum.splits option.splits)

lemma toon_resultaten_ok:
  assumes "ss_totaal s \<noteq> 0"
  shows "\<exists>res. toon_resultaten s = Inr res \<and>
           pdf_buffer res =
             projr (genereer_pdf (ss_emissies s) (ss_verbruik s) (ss_totaal s) (ss_stroom_type s))"
  using assms
  by (simp add: toon_resultaten_def percentage_kolom_ok genereer_pdf_eq bind_err_def)

lemma toon_resultaten_nul:
  assumes "ss_totaal s = 0" "ss_emissies s \<noteq> []"
  shows "toon_resultaten s = Inl ZeroDivisionError"
proof -
  from assms(2) obtain v vs where "values_of (ss_emissies s) = v # vs"
    by (cases "ss_emissies s") (auto simp: values_of_def)
  with assms(1) have "percentage_kolom (values_of (ss_emissies s)) (ss_totaal s) =
      Inl ZeroDivisionError"
    by (simp only: percentage_kolom_nul)
  then show ?thesis
    by (simp add: toon_resultaten_def bind_err_def)
qed

lemma voorbeeld_run:
  "main None \<lparr>gas_verbruik = 100, elektra_verbruik = 300, stroom_type = ''Grijze stroom'',
              diesel_verbruik = 0, button = True\<rparr> =
     \<lparr>warning = False,
      session_state = Some \<lparr>ss_emissies = [(''Aardgas'', 208.5), (''Elektriciteit'', 160.8)],
           ss_totaal = 369.3,
           ss_verbruik = \<lparr>gas = 100, elektra = 300, diesel = 0\<rparr>,
           ss_stroom_type = ''Grijze stroom''\<rparr>,
      outcome = bind_err (toon_resultaten \<lparr>ss_emissies = [(''Aardgas'', 208.5), (''Elektriciteit'', 160.8)],
           ss_totaal = 369.3,
           ss_verbruik = \<lparr>gas = 100, elektra = 300, diesel = 0\<rparr>,
           ss_stroom_type = ''Grijze stroom''\<rparr>) (\<lambda>r. Inr (Some r))\<rparr>"
  by (rule main_bereken [where es = "[(''Aardgas'', 208.5), (''Elektriciteit'', 160.8)]"])
     (simp_all add: bereken_emissies_eq stroom_opties_def stroom_factor_def values_of_def)

lemma format_369: "format_f 2 369.3 = ''369.30''"
  by (simp add: format_eval)

lemma format_nul_Suc: "format_f (Suc 0) 0 = ''0.0''"
  using format_nul_1 by simp

lemma groen_run:
  assumes "0 < elektra_kwh"
  shows "main ss \<lparr>gas_verbruik = 0, elektra_verbruik = elektra_kwh,
                   stroom_type = ''Groene stroom'', diesel_verbruik = 0, button = True\<rparr> =
     \<lparr>warning = False,
      session_state = Some \<lparr>ss_emissies = [(''Elektriciteit'', 0)], ss_totaal = 0,
           ss_verbruik = \<lparr>gas = 0, elektra = elektra_kwh, diesel = 0\<rparr>,
           ss_stroom_type = ''Groene stroom''\<rparr>,
      outcome = Inl ZeroDivisionError\<rparr>"
proof -
  define s where "s = \<lparr>ss_emissies = [(''Elektriciteit'', 0)], ss_totaal = 0,
           ss_verbruik = \<lparr>gas = 0, elektra = elektra_kwh, diesel = 0\<rparr>,
           ss_stroom_type = ''Groene stroom''\<rparr>"
  have "toon_resultaten s = Inl ZeroDivisionError"
    by (rule toon_resultaten_nul) (simp_all add: s_def)
  moreover have "main ss \<lparr>gas_verbruik = 0, elektra_verbruik = elektra_kwh,
                   stroom_type = ''Groene stroom'', diesel_verbruik = 0, button = True\<rparr> =
     \<lparr>warning = False, session_state = Some s,
      outcome = bind_err (toon_resultaten s) (\<lambda>r. Inr (Some r))\<rparr>"
    using assms
    by (intro main_bereken [where es = "[(''Elektriciteit'', 0)]"])
       (simp_all add: bereken_emissies_eq stroom_opties_def stroom_factor_def values_of_def s_def)
  ultimately show ?thesis
    by (simp add: bind_err_def s_def)
qed

lemma gas_run:
  "main None \<lparr>gas_verbruik = 100, elektra_verbruik = 0, stroom_type = ''Grijze stroom'',
              diesel_verbruik = 0, button = True\<rparr> =
     \<lparr>warning = False,
      session_state = Some \<lparr>ss_emissies = [(''Aardgas'', 208.5)], ss_totaal = 208.5,
           ss_verbruik = \<lparr>gas = 100, elektra = 0, diesel = 0\<rparr>,
           ss_stroom_type = ''Grijze stroom''\<rparr>,
      outcome = bind_err (toon_resultaten \<lparr>ss_emissies = [(''Aardgas'', 208.5)], ss_totaal = 208.5,
           ss_verbruik = \<lparr>gas = 100, elektra = 0, diesel = 0\<rparr>,
           ss_stroom_type = ''Grijze stroom''\<rparr>) (\<lambda>r. Inr (Some r))\<rparr>"
  by (rule main_bereken [where es = "[(''Aardgas'', 208.5)]"])
     (simp_all add: bereken_emissies_eq stroom_opties_def stroom_factor_def values_of_def)



lemma document_toon:
  assumes "outcome r = bind_err (toon_resultaten s) (\<lambda>res. Inr (Some res))"
    and "ss_totaal s \<noteq> 0"
  shows "document r =
     Some (projr (genereer_pdf (ss_emissies s) (ss_verbruik s) (ss_totaal s) (ss_stroom_type s)))"
proof -
  from assms(2) obtain res where "toon_resultaten s = Inr res"
    and "pdf_buffer res =
      projr (genereer_pdf (ss_emissies s) (ss_verbruik s) (ss_totaal s) (ss_stroom_type s))"
    using toon_resultaten_ok by blast
  with assms(1) show ?thesis
    by (simp add: document_def bind_err_def)
qed

lemma format_voorbeeld:
  "format_f 2 208.5 = ''208.50''"
  "format_f 2 160.8 = ''160.80''"
  "format_f 1 (208.5 / 369.3 * 100) = ''56.5''"
  "format_f 1 (160.8 / 369.3 * 100) = ''43.5''"
  by (simp_all add: format_eval)

lemma format_factoren:
  "format_f 3 2.085 = ''2.085''"
  "format_f 3 0.536 = ''0.536''"
  "format_f 3 0.000 = ''0.000''"
  "format_f 3 3.256 = ''3.256''"
  "format_f 3 2.821 = ''2.821''"
  by (simp_all add: format_eval)

lemma factoren_rijen_waarde:
  "map (\<lambda>(naam, factor). [naam, format_f 3 factor, ''kg CO'' @ sub2 @ ''-eq'']) EMISSIEFACTOREN =
     [[''Aardgas (m'' @ sup3 @ '')'', ''2.085'', ''kg CO'' @ sub2 @ ''-eq''],
      [''Elektriciteit - Grijze stroom (kWh)'', ''0.536'', ''kg CO'' @ sub2 @ ''-eq''],
      [''Elektriciteit - Groene stroom (kWh)'', ''0.000'', ''kg CO'' @ sub2 @ ''-eq''],
      [''Diesel (liter)'', ''3.256'', ''kg CO'' @ sub2 @ ''-eq''],
      [''Benzine (liter)'', ''2.821'', ''kg CO'' @ sub2 @ ''-eq'']]"
  unfolding EMISSIEFACTOREN_def list.map prod.case format_factoren ..

lemma document_factoren:
  assumes "document (main ss inp) = Some r"
  shows "factoren_tabel_data r =
     [''Energiedrager'', ''Emissiefactor'', ''Eenheid'']
     # map (\<lambda>(naam, factor). [naam, format_f 3 factor, ''kg CO'' @ sub2 @ ''-eq''])
         EMISSIEFACTOREN"
proof -
  from assms obtain res where "outcome (main ss inp) = Inr (Some res)" and r: "r = pdf_buffer res"
    by (auto simp: document_def split: sum.splits option.splits)
  then obtain s where "toon_resultaten s = Inr res"
    by (auto dest: outcome_shown)
  then have "genereer_pdf (ss_emissies s) (ss_verbruik s) (ss_totaal s) (ss_stroom_type s) = Inr r"
    using r by (auto simp: toon_resultaten_def bind_err_def split: sum.splits)
  then show ?thesis
    by (auto simp: genereer_pdf_eq)
qed

lemma benzine_ongebruikt:
  assumes "\<And>k. k \<noteq> ''Benzine (liter)'' \<Longrightarrow> map_of tabel k = map_of EMISSIEFACTOREN k"
  shows "bereken_emissies_in tabel g e tarief d = bereken_emissies g e tarief d"
proof -
  have "dict_get tabel k = dict_get EMISSIEFACTOREN k" if "k \<noteq> ''Benzine (liter)''" for k
    using assms [OF that] by (simp add: dict_get_def)
  then have "dict_get tabel (''Aardgas (m'' @ sup3 @ '')'') =
        dict_get EMISSIEFACTOREN (''Aardgas (m'' @ sup3 @ '')'')"
    and "dict_get tabel (''Elektriciteit - '' @ tarief @ '' (kWh)'') =
        dict_get EMISSIEFACTOREN (''Elektriciteit - '' @ tarief @ '' (kWh)'')"
    and "dict_get tabel ''Diesel (liter)'' = dict_get EMISSIEFACTOREN ''Diesel (liter)''"
    by simp_all
  then show ?thesis
    unfolding bereken_emissies_def bereken_emissies_in_def Let_def
    by (simp only:)
qed

lemma gas_document:
  "document
     (main None \<lparr>gas_verbruik = 100, elektra_verbruik = 0, stroom_type = ''Grijze stroom'',
                 diesel_verbruik = 0, button = True\<rparr>) =
   Some (projr (genereer_pdf [(''Aardgas'', 208.5)] \<lparr>gas = 100, elektra = 0, diesel = 0\<rparr>
           208.5 ''Grijze stroom''))"
proof -
  define s where "s = \<lparr>ss_emissies = [(''Aardgas'', 208.5)], ss_totaal = 208.5,
           ss_verbruik = \<lparr>gas = 100, elektra = 0, diesel = 0\<rparr>,
           ss_stroom_type = ''Grijze stroom''\<rparr>"
  have "outcome (main None \<lparr>gas_verbruik = 100, elektra_verbruik = 0,
      stroom_type = ''Grijze stroom'', diesel_verbruik = 0, button = True\<rparr>) =
      bind_err (toon_resultaten s) (\<lambda>r. Inr (Some r))"
    by (simp add: gas_run s_def)
  then have "document (main None \<lparr>gas_verbruik = 100, elektra_verbruik = 0,
      stroom_type = ''Grijze stroom'', diesel_verbruik = 0, button = True\<rparr>) =
     Some (projr (genereer_pdf (ss_emissies s) (ss_verbruik s) (ss_totaal s) (ss_stroom_type s)))"
    by (rule document_toon) (simp add: s_def)
  then show ?thesis
    by (simp add: s_def)
qed

lemma lees_percentage_format:
  "0 \<le> p \<Longrightarrow>
   lees_percentage (format_f 1 p @ ''%'') = of_int (round_half_even (p * 10)) / 10"
  by (simp add: lees_percentage_def butlast_append lees_f_format_f)

lemma percentage_cellen_genereer:
  "percentage_cellen (projr (genereer_pdf es v t tarief)) =
     map (\<lambda>(c, e). format_f 1 (if 0 < t then e / t * 100 else 0) @ ''%'') es"
proof -
  have "butlast (tl (h # rows @ [tot])) = rows" for h tot :: "string list" and rows
    by (simp add: butlast_append)
  then show ?thesis
    by (simp add: percentage_cellen_def genereer_pdf_eq split_def)
qed

lemma percentages_nul:
  "percentage_cellen (projr (genereer_pdf es v 0 tarief)) = map (\<lambda>x. ''0.0%'') es"
  "som_percentages (projr (genereer_pdf es v 0 tarief)) = 0"
proof -
  show cells: "percentage_cellen (projr (genereer_pdf es v 0 tarief)) = map (\<lambda>x. ''0.0%'') es"
    by (simp add: percentage_cellen_genereer format_nul_Suc split_def)
  have "lees_percentage (format_f 1 0 @ ''%'') = 0"
    by (subst lees_percentage_format) (simp_all add: round_half_even_def)
  then have "lees_percentage ''0.0%'' = 0"
    by (simp add: format_nul_Suc)
  then show "som_percentages (projr (genereer_pdf es v 0 tarief)) = 0"
    unfolding som_percentages_def cells by (induction es) simp_all
qed

lemma som_afronding_verschil:
  "(\<Sum>p\<leftarrow>ps. real_of_int (round_half_even (p * 10)) - p * 10) =
     of_int (\<Sum>p\<leftarrow>ps. round_half_even (p * 10)) - 10 * sum_list ps"
  by (induction ps) (simp_all add: algebra_simps)

lemma som_afronding_grens:
  "\<bar>\<Sum>p\<leftarrow>ps. real_of_int (round_half_even (p * 10)) - p * 10\<bar> \<le> real (length ps) / 2"
proof (induction ps)
  case Nil
  then show ?case by simp
next
  case (Cons p ps)
  let ?a = "real_of_int (round_half_even (p * 10)) - p * 10"
  let ?S = "\<Sum>p\<leftarrow>ps. real_of_int (round_half_even (p * 10)) - p * 10"
  have a: "\<bar>?a\<bar> \<le> 1 / 2"
    by (rule round_half_even_near)
  have S: "\<bar>?S\<bar> \<le> real (length ps) / 2"
    by (rule Cons.IH)
  have "\<bar>?a + ?S\<bar> \<le> \<bar>?a\<bar> + \<bar>?S\<bar>"
    by (rule abs_triangle_ineq)
  also have "\<dots> \<le> 1 / 2 + real (length ps) / 2"
    using a S by (rule add_mono)
  finally show ?case
    by (simp add: add_divide_distrib)
qed

lemma som_tienden:
  "(\<Sum>p\<leftarrow>ps. real_of_int (round_half_even (p * 10)) / 10) =
     of_int (\<Sum>p\<leftarrow>ps. round_half_even (p * 10)) / 10"
  by (induction ps) (simp_all add: add_divide_distrib)

lemma som_afgerond:
  assumes "length ps \<le> 3" and "sum_list ps = 100"
  shows "\<bar>(\<Sum>p\<leftarrow>ps. real_of_int (round_half_even (p * 10)) / 10) - 100\<bar> \<le> 1 / 10"
proof -
  define R where "R = (\<Sum>p\<leftarrow>ps. round_half_even (p * 10))"
  have "\<bar>real_of_int R - 10 * sum_list ps\<bar> \<le> real (length ps) / 2"
    using som_afronding_grens [of ps] by (simp add: som_afronding_verschil R_def)
  also have "\<dots> \<le> 3 / 2"
    using assms(1) by simp
  finally have "\<bar>real_of_int (R - 1000)\<bar> < 2"
    using assms(2) by simp
  then have "\<bar>R - 1000\<bar> < 2"
    by linarith
  then have "\<bar>R - 1000\<bar> \<le> 1"
    by simp
  then have "\<bar>real_of_int (R - 1000)\<bar> \<le> 1"
    by (metis of_int_abs of_int_le_1_iff)
  then have "real_of_int R - 1000 \<le> 1" and "- (real_of_int R - 1000) \<le> 1"
    by (simp_all add: abs_le_iff)
  then have "real_of_int R / 10 - 100 \<le> 1 / 10" and "- (real_of_int R / 10 - 100) \<le> 1 / 10"
    by simp_all
  then have "\<bar>real_of_int R / 10 - 100\<bar> \<le> 1 / 10"
    by (rule abs_leI)
  then show ?thesis
    by (simp add: som_tienden R_def)
qed

lemma som_percentages_positief:
  assumes "length es \<le> 3" and "\<forall>x\<in>set es. 0 \<le> snd x"
    and "t = sum_list (values_of es)" and "0 < t"
  shows "\<bar>som_percentages (projr (genereer_pdf es v t tarief)) - 100\<bar> \<le> 1 / 10"
proof -
  define ps where "ps = map (\<lambda>x. snd x / t * 100) es"
  have "sum_list ps = sum_list (values_of es) / t * 100"
    unfolding ps_def values_of_def
    by (induction es) (simp_all add: add_divide_distrib distrib_right)
  with assms(3,4) have som: "sum_list ps = 100"
    by simp
  have len: "length ps \<le> 3"
    using assms(1) by (simp add: ps_def)
  have cells: "percentage_cellen (projr (genereer_pdf es v t tarief)) =
      map (\<lambda>x. format_f 1 (snd x / t * 100) @ ''%'') es"
    using assms(4) by (simp add: percentage_cellen_genereer split_def)
  have cel: "lees_percentage (format_f 1 (snd x / t * 100) @ ''%'') =
      real_of_int (round_half_even (snd x / t * 100 * 10)) / 10" if "x \<in> set es" for x
  proof (rule lees_percentage_format)
    from that assms(2) have "0 \<le> snd x"
      by blast
    with assms(4) show "0 \<le> snd x / t * 100"
      by simp
  qed
  have "map lees_percentage (percentage_cellen (projr (genereer_pdf es v t tarief))) =
      map (\<lambda>p. real_of_int (round_half_even (p * 10)) / 10) ps"
    unfolding cells ps_def map_map comp_def
    by (rule map_cong [OF refl]) (rule cel)
  then have "som_percentages (projr (genereer_pdf es v t tarief)) =
      (\<Sum>p\<leftarrow>ps. real_of_int (round_half_even (p * 10)) / 10)"
    by (simp add: som_percentages_def)
  with som_afgerond [OF len som] show ?thesis
    by simp
qed

lemma bereken_emissies_vorm:
  assumes "0 \<le> g" "0 \<le> e" "0 \<le> d" and "tarief \<in> set stroom_opties"
    and "bereken_emissies g e tarief d = Inr es"
  shows "length es \<le> 3" and "\<forall>x\<in>set es. 0 \<le> snd x"
  using assms by (auto simp: bereken_emissies_eq stroom_factor_def)

lemma main_geldig:
  assumes "form_input inp" and "geldige_sessie ss"
  shows "geldige_sessie (session_state (main ss inp))"
proof (cases "button inp \<and>
      \<not> (gas_verbruik inp = 0 \<and> elektra_verbruik inp = 0 \<and> diesel_verbruik inp = 0)")
  case False
  then have "session_state (main ss inp) = ss"
    by (auto simp: main_def bereken_knop_def)
  with assms(2) show ?thesis by simp
next
  case True
  from assms(1) have opt: "stroom_type inp \<in> set stroom_opties"
    and nonneg: "0 \<le> gas_verbruik inp" "0 \<le> elektra_verbruik inp" "0 \<le> diesel_verbruik inp"
    by (simp_all add: form_input_def)
  obtain es where es: "bereken_emissies (gas_verbruik inp) (elektra_verbruik inp)
      (stroom_type inp) (diesel_verbruik inp) = Inr es"
    using opt by (simp add: bereken_emissies_eq)
  from True nonneg
  have "0 < gas_verbruik inp \<or> 0 < elektra_verbruik inp \<or> 0 < diesel_verbruik inp"
    by auto
  with es opt have "es \<noteq> []"
    by (auto simp: bereken_emissies_eq)
  moreover from bereken_emissies_vorm [OF nonneg opt es]
  have "length es \<le> 3" and "list_all (\<lambda>x. 0 \<le> snd x) es"
    by (simp_all add: list_all_iff)
  moreover from True es have "session_state (main ss inp) =
      Some \<lparr>ss_emissies = es, ss_totaal = sum_list (values_of es),
            ss_verbruik = \<lparr>gas = gas_verbruik inp, elektra = elektra_verbruik inp,
                            diesel = diesel_verbruik inp\<rparr>,
            ss_stroom_type = stroom_type inp\<rparr>"
    by (simp add: main_bereken [OF _ _ es refl])
  ultimately show ?thesis
    by (simp add: geldige_sessie_def)
qed

lemma runs_geldig:
  "list_all form_input inps \<Longrightarrow> geldige_sessie ss \<Longrightarrow> geldige_sessie (runs ss inps)"
  unfolding runs_def
  by (induction inps arbitrary: ss) (simp_all add: main_geldig)

text \<open>
  Every report that the page offers, in a session of runs on values from the form, has a
  positive total, so that the numbers of its percentage column add up to 100 within 0.1.
\<close>

lemma rapport_van_pagina:
  assumes "list_all form_input inps" and "form_input inp"
    and "document (main (runs None inps) inp) = Some r"
  shows "\<bar>som_percentages r - 100\<bar> \<le> 1 / 10"
proof -
  have "geldige_sessie (runs None inps)"
    using assms(1) by (rule runs_geldig) (simp add: geldige_sessie_def)
  with assms(2) have inv: "geldige_sessie (session_state (main (runs None inps) inp))"
    by (rule main_geldig)
  from assms(3) obtain res
    where out: "outcome (main (runs None inps) inp) = Inr (Some res)" and r: "r = pdf_buffer res"
    by (auto simp: document_def split: sum.splits option.splits)
  then obtain s where s: "session_state (main (runs None inps) inp) = Some s"
    and toon: "toon_resultaten s = Inr res"
    by (auto dest: outcome_shown)
  from inv s have es: "ss_emissies s \<noteq> []" "length (ss_emissies s) \<le> 3"
    "\<forall>x\<in>set (ss_emissies s). 0 \<le> snd x"
    and tot: "ss_totaal s = sum_list (values_of (ss_emissies s))"
    by (simp_all add: geldige_sessie_def list_all_iff)
  from toon es(1) have "ss_totaal s \<noteq> 0"
    using toon_resultaten_nul [of s] by auto
  moreover have "0 \<le> sum_list (values_of (ss_emissies s))"
    unfolding values_of_def using es(3) by (intro sum_list_nonneg) auto
  ultimately have pos: "0 < ss_totaal s"
    using tot by simp
  from toon have "genereer_pdf (ss_emissies s) (ss_verbruik s) (ss_totaal s) (ss_stroom_type s)
      = Inr r"
    using r by (auto simp: toon_resultaten_def bind_err_def split: sum.splits)
  then have "projr (genereer_pdf (ss_emissies s) (ss_verbruik s) (ss_totaal s)
      (ss_stroom_type s)) = r"
    by simp
  with som_percentages_positief [OF es(2,3) tot pos, of "ss_verbruik s" "ss_stroom_type s"]
  show ?thesis
    by simp
qed

section \<open>The claims\<close>

subsection \<open>The calculator\<close>

text \<open>
  C1. For non-negative quantities and either tariff, \<^verbatim>\<open>bereken_emissies\<close> returns a
  mapping, without raising, in which every category present has the value quantity times
  factor (2.085 for gas, 3.256 for diesel, and for electricity 0.536 under the grey tariff
  and 0.000 under the green one), and in which a category whose quantity is zero is absent.
  The mapping has no other keys.
\<close>

theorem bereken_emissies_correct:
  assumes "0 \<le> gas_m3" "0 \<le> elektra_kwh" "0 \<le> diesel_liter"
    and "tarief \<in> set stroom_opties"
  shows "\<exists>emissies.
     bereken_emissies gas_m3 elektra_kwh tarief diesel_liter = Inr emissies \<and>
     distinct (keys emissies) \<and>
     set (keys emissies) \<subseteq> {''Aardgas'', ''Elektriciteit'', ''Diesel''} \<and>
     map_of emissies ''Aardgas'' = (if gas_m3 = 0 then None else Some (gas_m3 * 2.085)) \<and>
     map_of emissies ''Elektriciteit'' =
       (if elektra_kwh = 0 then None
        else Some (elektra_kwh * (if tarief = ''Grijze stroom'' then 0.536 else 0.000))) \<and>
     map_of emissies ''Diesel'' =
       (if diesel_liter = 0 then None else Some (diesel_liter * 3.256))"
  using assms
  by (simp add: bereken_emissies_eq keys_def stroom_factor_def)

theorem bereken_emissies_correct_witness:
  "\<exists>emissies.
     bereken_emissies 100 300 ''Grijze stroom'' 0 = Inr emissies \<and>
     distinct (keys emissies) \<and>
     set (keys emissies) \<subseteq> {''Aardgas'', ''Elektriciteit'', ''Diesel''} \<and>
     map_of emissies ''Aardgas'' = Some (100 * 2.085) \<and>
     map_of emissies ''Elektriciteit'' = Some (300 * 0.536) \<and>
     map_of emissies ''Diesel'' = None"
  using bereken_emissies_correct [of 100 300 0 "''Grijze stroom''"]
  by (simp add: stroom_opties_def)

text \<open>
  C7. For 100 cubic metres of gas, 300 kWh of grey electricity and no diesel the calculator
  returns gas 208.5 and electricity 160.8, in this order and without diesel, and the run
  of the page that computes it stores the total 369.3.
\<close>

theorem voorbeeld_berekening:
  "bereken_emissies 100 300 ''Grijze stroom'' 0 =
     Inr [(''Aardgas'', 208.5), (''Elektriciteit'', 160.8)] \<and>
   session_state
     (main None \<lparr>gas_verbruik = 100, elektra_verbruik = 300, stroom_type = ''Grijze stroom'',
                 diesel_verbruik = 0, button = True\<rparr>) =
     Some \<lparr>ss_emissies = [(''Aardgas'', 208.5), (''Elektriciteit'', 160.8)],
           ss_totaal = 369.3,
           ss_verbruik = \<lparr>gas = 100, elektra = 300, diesel = 0\<rparr>,
           ss_stroom_type = ''Grijze stroom''\<rparr>"
  by (simp add: main_def bereken_knop_def bereken_emissies_eq stroom_opties_def
      stroom_factor_def bind_err_def values_of_def)

text \<open>
  C5. Two calls of the calculator on the same non-negative quantities, one with the grey
  and one with the green tariff, return mappings with the same keys in the same order that
  agree on every key but electricity; the gas and diesel entries are the same, and
  electricity, when present, is 0.536 times the quantity under grey and exactly 0 under
  green.
\<close>

theorem tarief_wissel:
  assumes "0 \<le> gas_m3" "0 \<le> elektra_kwh" "0 \<le> diesel_liter"
  shows "\<exists>grijs groen.
     bereken_emissies gas_m3 elektra_kwh ''Grijze stroom'' diesel_liter = Inr grijs \<and>
     bereken_emissies gas_m3 elektra_kwh ''Groene stroom'' diesel_liter = Inr groen \<and>
     keys groen = keys grijs \<and>
     (\<forall>k. k \<noteq> ''Elektriciteit'' \<longrightarrow> map_of groen k = map_of grijs k) \<and>
     map_of groen ''Aardgas'' = map_of grijs ''Aardgas'' \<and>
     map_of groen ''Diesel'' = map_of grijs ''Diesel'' \<and>
     (0 < elektra_kwh \<longrightarrow>
        map_of grijs ''Elektriciteit'' = Some (elektra_kwh * 0.536) \<and>
        map_of groen ''Elektriciteit'' = Some 0)"
  by (simp add: bereken_emissies_eq keys_def stroom_factor_def stroom_opties_def)

theorem tarief_wissel_witness:
  "\<exists>grijs groen.
     bereken_emissies 100 300 ''Grijze stroom'' 50 = Inr grijs \<and>
     bereken_emissies 100 300 ''Groene stroom'' 50 = Inr groen \<and>
     keys groen = keys grijs \<and>
     map_of groen ''Aardgas'' = map_of grijs ''Aardgas'' \<and>
     map_of groen ''Diesel'' = map_of grijs ''Diesel'' \<and>
     map_of grijs ''Elektriciteit'' = Some (300 * 0.536) \<and>
     map_of groen ''Elektriciteit'' = Some 0"
  using tarief_wissel [of 100 300 50] by auto

subsection \<open>The page\<close>

text \<open>
  C2. In every run of the page, after any sequence of earlier runs of the session, a
  stored total is the sum of the values of the stored emissions mapping; and when the run
  shows results, the total in the metric and in the totals row of the report is that sum,
  printed with two decimals.
\<close>

theorem totaal_is_som:
  assumes "session_state (main (runs None inps) inp) = Some s"
  shows "ss_totaal s = sum_list (values_of (ss_emissies s)) \<and>
     (\<forall>res. outcome (main (runs None inps) inp) = Inr (Some res) \<longrightarrow>
        metric_value res =
          format_f 2 (sum_list (values_of (ss_emissies s))) @ '' kg CO'' @ sub2 @ ''-eq'' \<and>
        last (emissie_tabel_data (pdf_buffer res)) =
          [''TOTAAL'', format_f 2 (sum_list (values_of (ss_emissies s))), ''100%''])"
proof -
  have "totaal_klopt (runs None inps)"
    by (rule runs_totaal_klopt) (simp add: totaal_klopt_def)
  then have "totaal_klopt (session_state (main (runs None inps) inp))"
    by (rule main_totaal_klopt)
  with assms have tot: "ss_totaal s = sum_list (values_of (ss_emissies s))"
    by (simp add: totaal_klopt_def)
  moreover have "metric_value res =
          format_f 2 (sum_list (values_of (ss_emissies s))) @ '' kg CO'' @ sub2 @ ''-eq'' \<and>
        last (emissie_tabel_data (pdf_buffer res)) =
          [''TOTAAL'', format_f 2 (sum_list (values_of (ss_emissies s))), ''100%'']"
    if "outcome (main (runs None inps) inp) = Inr (Some res)" for res
  proof -
    from that assms have "toon_resultaten s = Inr res"
      by (auto dest: outcome_shown)
    then show ?thesis
      using tot by (simp add: toon_resultaten_Inr)
  qed
  ultimately show ?thesis by blast
qed

theorem totaal_is_som_witness:
  "\<exists>s res.
     session_state
       (main (runs None [])
          \<lparr>gas_verbruik = 100, elektra_verbruik = 300, stroom_type = ''Grijze stroom'',
           diesel_verbruik = 0, button = True\<rparr>) = Some s \<and>
     outcome
       (main (runs None [])
          \<lparr>gas_verbruik = 100, elektra_verbruik = 300, stroom_type = ''Grijze stroom'',
           diesel_verbruik = 0, button = True\<rparr>) = Inr (Some res) \<and>
     ss_emissies s = [(''Aardgas'', 208.5), (''Elektriciteit'', 160.8)] \<and>
     ss_totaal s = 369.3 \<and>
     metric_value res = ''369.30 kg CO'' @ sub2 @ ''-eq'' \<and>
     last (emissie_tabel_data (pdf_buffer res)) = [''TOTAAL'', ''369.30'', ''100%'']"
proof -
  define inp where "inp = \<lparr>gas_verbruik = 100, elektra_verbruik = 300,
    stroom_type = ''Grijze stroom'', diesel_verbruik = 0, button = True\<rparr>"
  define s where "s = \<lparr>ss_emissies = [(''Aardgas'', 208.5), (''Elektriciteit'', 160.8)],
    ss_totaal = 369.3, ss_verbruik = \<lparr>gas = 100, elektra = 300, diesel = 0\<rparr>,
    ss_stroom_type = ''Grijze stroom''\<rparr>"
  have run: "main (runs None []) inp =
      \<lparr>warning = False, session_state = Some s,
       outcome = bind_err (toon_resultaten s) (\<lambda>r. Inr (Some r))\<rparr>"
    unfolding inp_def s_def using voorbeeld_run by (simp add: runs_def)
  obtain res where res: "toon_resultaten s = Inr res"
    using toon_resultaten_ok [of s] by (auto simp: s_def)
  with run have out: "outcome (main (runs None []) inp) = Inr (Some res)"
    by (simp add: bind_err_def)
  from run have st: "session_state (main (runs None []) inp) = Some s"
    by simp
  from totaal_is_som [OF st] out
  have "metric_value res = format_f 2 (sum_list (values_of (ss_emissies s))) @ '' kg CO'' @ sub2 @ ''-eq''"
    and "last (emissie_tabel_data (pdf_buffer res)) =
          [''TOTAAL'', format_f 2 (sum_list (values_of (ss_emissies s))), ''100%'']"
    by blast+
  moreover have "sum_list (values_of (ss_emissies s)) = 369.3"
    by (simp add: s_def values_of_def)
  ultimately have "metric_value res = ''369.30 kg CO'' @ sub2 @ ''-eq''"
    and "last (emissie_tabel_data (pdf_buffer res)) = [''TOTAAL'', ''369.30'', ''100%'']"
    by (simp_all add: format_369)
  with st out show ?thesis
    unfolding inp_def by (intro exI [of _ s] exI [of _ res]) (simp add: s_def)
qed

text \<open>
  C10. With a positive electricity quantity under the green tariff and no gas or diesel,
  which the form can give, the calculator returns the mapping with the single entry
  electricity 0. The run of the page that computes it shows no warning and stores this
  mapping with the total 0; it then ends with ZeroDivisionError in the percentage column
  of the results table, which divides by the total without a guard, so that no report is
  offered. The report's own loop, which has the guard, prints 0.0% for the same data.
\<close>

theorem groene_stroom_deling_door_nul:
  assumes "0 < elektra_kwh"
    and "inp = \<lparr>gas_verbruik = 0, elektra_verbruik = elektra_kwh,
                 stroom_type = ''Groene stroom'', diesel_verbruik = 0, button = True\<rparr>"
  shows "form_input inp \<and>
     bereken_emissies 0 elektra_kwh ''Groene stroom'' 0 = Inr [(''Elektriciteit'', 0)] \<and>
     \<not> warning (main ss inp) \<and>
     session_state (main ss inp) =
       Some \<lparr>ss_emissies = [(''Elektriciteit'', 0)], ss_totaal = 0,
             ss_verbruik = \<lparr>gas = 0, elektra = elektra_kwh, diesel = 0\<rparr>,
             ss_stroom_type = ''Groene stroom''\<rparr> \<and>
     percentage_kolom (values_of [(''Elektriciteit'', 0)]) 0 = Inl ZeroDivisionError \<and>
     outcome (main ss inp) = Inl ZeroDivisionError \<and>
     document (main ss inp) = None \<and>
     emissie_rijen [] [(''Elektriciteit'', 0)] 0 = Inr [[''Elektriciteit'', ''0.00'', ''0.0%'']]"
  using assms
  by (simp add: groen_run form_input_def stroom_opties_def bereken_emissies_eq
      stroom_factor_def document_def values_of_def percentage_kolom_nul emissie_rijen_eq
      format_nul_Suc format_nul_2 del: percentage_kolom.simps)

theorem groene_stroom_deling_door_nul_witness:
  "bereken_emissies 0 100 ''Groene stroom'' 0 = Inr [(''Elektriciteit'', 0)] \<and>
   session_state
     (main None \<lparr>gas_verbruik = 0, elektra_verbruik = 100, stroom_type = ''Groene stroom'',
                 diesel_verbruik = 0, button = True\<rparr>) =
     Some \<lparr>ss_emissies = [(''Elektriciteit'', 0)], ss_totaal = 0,
           ss_verbruik = \<lparr>gas = 0, elektra = 100, diesel = 0\<rparr>,
           ss_stroom_type = ''Groene stroom''\<rparr> \<and>
   outcome
     (main None \<lparr>gas_verbruik = 0, elektra_verbruik = 100, stroom_type = ''Groene stroom'',
                 diesel_verbruik = 0, button = True\<rparr>) = Inl ZeroDivisionError"
  using groene_stroom_deling_door_nul [of 100 _ None, OF _ refl] by simp




subsection \<open>The report\<close>

text \<open>
  C6. \<^verbatim>\<open>genereer_pdf\<close> never raises. Its emissions table is the header, then one row for
  each entry of the mapping, in order, with the category, the value printed with two
  decimals and the percentage printed with one decimal and a percent sign, then the totals
  row with the fixed cell 100%. The percentage is value / total * 100 when the total is
  positive and 0 otherwise, so a total of 0 gives 0.0% in every row. Printing with \<open>d\<close>
  decimals gives \<open>d\<close> digits after the point and a number within half a unit of the last
  digit.
\<close>

theorem emissie_tabel_correct:
  "\<exists>r. genereer_pdf es v t tarief = Inr r \<and>
     emissie_tabel_data r =
       [''Categorie'', ''CO'' @ sub2 @ ''-emissies (kg CO'' @ sub2 @ ''-eq)'', ''Percentage'']
       # map (\<lambda>(c, e). [c, format_f 2 e,
                       format_f 1 (if 0 < t then e / t * 100 else 0) @ ''%'']) es
       @ [[''TOTAAL'', format_f 2 t, ''100%'']] \<and>
     (t = 0 \<longrightarrow> percentage_cellen r = map (\<lambda>x. ''0.0%'') es) \<and>
     (\<forall>x. 0 \<le> x \<longrightarrow>
        decimalen (format_f 2 x) = 2 \<and> \<bar>lees_f (format_f 2 x) - x\<bar> \<le> 1 / 200 \<and>
        decimalen (format_f 1 x) = 1 \<and> \<bar>lees_f (format_f 1 x) - x\<bar> \<le> 1 / 20)"
proof -
  have "decimalen (format_f 2 x) = 2 \<and> \<bar>lees_f (format_f 2 x) - x\<bar> \<le> 1 / 200 \<and>
        decimalen (format_f 1 x) = 1 \<and> \<bar>lees_f (format_f 1 x) - x\<bar> \<le> 1 / 20"
    if "0 \<le> x" for x
    using that format_f_near [of x 2] format_f_near [of x 1]
    by (simp add: decimalen_format_f)
  moreover have "butlast (tl (h # rows @ [tot])) = rows" for h tot :: "string list" and rows
    by (simp add: butlast_append)
  then have "t = 0 \<Longrightarrow> percentage_cellen (projr (genereer_pdf es v t tarief)) =
      map (\<lambda>x. ''0.0%'') es"
    by (simp add: percentage_cellen_def genereer_pdf_eq format_nul_Suc split_def)
  ultimately show ?thesis
    by (simp add: genereer_pdf_eq)
qed

theorem emissie_tabel_correct_witness:
  "\<exists>r. genereer_pdf [(''Aardgas'', 208.5), (''Elektriciteit'', 160.8)]
          \<lparr>gas = 100, elektra = 300, diesel = 0\<rparr> 369.3 ''Grijze stroom'' = Inr r \<and>
     emissie_tabel_data r =
       [[''Categorie'', ''CO'' @ sub2 @ ''-emissies (kg CO'' @ sub2 @ ''-eq)'', ''Percentage''],
        [''Aardgas'', ''208.50'', ''56.5%''],
        [''Elektriciteit'', ''160.80'', ''43.5%''],
        [''TOTAAL'', ''369.30'', ''100%'']] \<and>
     decimalen (format_f 2 208.5) = 2 \<and> \<bar>lees_f (format_f 2 208.5) - 208.5\<bar> \<le> 1 / 200"
proof -
  have pos: "(0::real) < 369.3"
    by simp
  have rows: "map (\<lambda>(c, e). [c, format_f 2 e,
                       format_f 1 (if 0 < (369.3::real) then e / 369.3 * 100 else 0) @ ''%''])
           [(''Aardgas'', 208.5), (''Elektriciteit'', 160.8)] =
       [[''Aardgas'', ''208.50'', ''56.5%''], [''Elektriciteit'', ''160.80'', ''43.5%'']]"
    unfolding list.map prod.case if_P [OF pos] format_voorbeeld by simp
  from emissie_tabel_correct [of "[(''Aardgas'', 208.5), (''Elektriciteit'', 160.8)]"
      "\<lparr>gas = 100, elektra = 300, diesel = 0\<rparr>" "369.3" "''Grijze stroom''"]
  obtain r where r: "genereer_pdf [(''Aardgas'', 208.5), (''Elektriciteit'', 160.8)]
          \<lparr>gas = 100, elektra = 300, diesel = 0\<rparr> 369.3 ''Grijze stroom'' = Inr r"
    and tab: "emissie_tabel_data r =
       [''Categorie'', ''CO'' @ sub2 @ ''-emissies (kg CO'' @ sub2 @ ''-eq)'', ''Percentage'']
       # map (\<lambda>(c, e). [c, format_f 2 e,
                       format_f 1 (if 0 < (369.3::real) then e / 369.3 * 100 else 0) @ ''%''])
           [(''Aardgas'', 208.5), (''Elektriciteit'', 160.8)]
       @ [[''TOTAAL'', format_f 2 369.3, ''100%'']]"
    and fmt: "\<forall>x::real. 0 \<le> x \<longrightarrow>
        decimalen (format_f 2 x) = 2 \<and> \<bar>lees_f (format_f 2 x) - x\<bar> \<le> 1 / 200 \<and>
        decimalen (format_f 1 x) = 1 \<and> \<bar>lees_f (format_f 1 x) - x\<bar> \<le> 1 / 20"
    by blast
  from fmt have "decimalen (format_f 2 208.5) = 2 \<and>
      \<bar>lees_f (format_f 2 208.5) - 208.5\<bar> \<le> 1 / 200"
    by simp
  moreover from tab have "emissie_tabel_data r =
       [[''Categorie'', ''CO'' @ sub2 @ ''-emissies (kg CO'' @ sub2 @ ''-eq)'', ''Percentage''],
        [''Aardgas'', ''208.50'', ''56.5%''],
        [''Elektriciteit'', ''160.80'', ''43.5%''],
        [''TOTAAL'', ''369.30'', ''100%'']]"
    unfolding rows format_369 by simp
  ultimately show ?thesis
    using r by blast
qed

text \<open>
  C9. The table of emission factors has exactly five entries, under five different keys:
  gas 2.085, grey electricity 0.536, green electricity 0.000, diesel 3.256 and petrol
  2.821. The calculator does not read the petrol entry: on a table that differs from this
  one at most under the petrol key it returns the same result. The reference table of the
  report lists the five entries with their factors printed with three decimals, and so
  does the report of every run of the page, after any sequence of earlier runs: nothing in
  the program changes the table.
\<close>

theorem emissiefactoren_vast:
  "length EMISSIEFACTOREN = 5 \<and> distinct (keys EMISSIEFACTOREN) \<and>
   dict_get EMISSIEFACTOREN (''Aardgas (m'' @ sup3 @ '')'') = Inr 2.085 \<and>
   dict_get EMISSIEFACTOREN ''Elektriciteit - Grijze stroom (kWh)'' = Inr 0.536 \<and>
   dict_get EMISSIEFACTOREN ''Elektriciteit - Groene stroom (kWh)'' = Inr 0.000 \<and>
   dict_get EMISSIEFACTOREN ''Diesel (liter)'' = Inr 3.256 \<and>
   dict_get EMISSIEFACTOREN ''Benzine (liter)'' = Inr 2.821 \<and>
   (\<forall>tabel.
      (\<forall>k. k \<noteq> ''Benzine (liter)'' \<longrightarrow> map_of tabel k = map_of EMISSIEFACTOREN k) \<longrightarrow>
      bereken_emissies_in tabel g e tarief d = bereken_emissies g e tarief d) \<and>
   (\<exists>r. genereer_pdf es v t tarief = Inr r \<and>
      factoren_tabel_data r =
        [[''Energiedrager'', ''Emissiefactor'', ''Eenheid''],
         [''Aardgas (m'' @ sup3 @ '')'', ''2.085'', ''kg CO'' @ sub2 @ ''-eq''],
         [''Elektriciteit - Grijze stroom (kWh)'', ''0.536'', ''kg CO'' @ sub2 @ ''-eq''],
         [''Elektriciteit - Groene stroom (kWh)'', ''0.000'', ''kg CO'' @ sub2 @ ''-eq''],
         [''Diesel (liter)'', ''3.256'', ''kg CO'' @ sub2 @ ''-eq''],
         [''Benzine (liter)'', ''2.821'', ''kg CO'' @ sub2 @ ''-eq'']]) \<and>
   (\<forall>r. document (main (runs None inps) inp) = Some r \<longrightarrow>
      factoren_tabel_data r =
        [[''Energiedrager'', ''Emissiefactor'', ''Eenheid''],
         [''Aardgas (m'' @ sup3 @ '')'', ''2.085'', ''kg CO'' @ sub2 @ ''-eq''],
         [''Elektriciteit - Grijze stroom (kWh)'', ''0.536'', ''kg CO'' @ sub2 @ ''-eq''],
         [''Elektriciteit - Groene stroom (kWh)'', ''0.000'', ''kg CO'' @ sub2 @ ''-eq''],
         [''Diesel (liter)'', ''3.256'', ''kg CO'' @ sub2 @ ''-eq''],
         [''Benzine (liter)'', ''2.821'', ''kg CO'' @ sub2 @ ''-eq'']])"
proof -
  have "length EMISSIEFACTOREN = 5"
    by (simp add: EMISSIEFACTOREN_def)
  moreover have "distinct (keys EMISSIEFACTOREN)"
    by (simp add: EMISSIEFACTOREN_def keys_def sup3_def)
  moreover have "dict_get EMISSIEFACTOREN (''Aardgas (m'' @ sup3 @ '')'') = Inr 2.085"
    by (rule factor_gas)
  moreover have "dict_get EMISSIEFACTOREN ''Elektriciteit - Grijze stroom (kWh)'' = Inr 0.536"
    using factor_grijs by simp
  moreover have "dict_get EMISSIEFACTOREN ''Elektriciteit - Groene stroom (kWh)'' = Inr 0.000"
    using factor_groen by simp
  moreover have "dict_get EMISSIEFACTOREN ''Diesel (liter)'' = Inr 3.256"
    by (rule factor_diesel)
  moreover have "dict_get EMISSIEFACTOREN ''Benzine (liter)'' = Inr 2.821"
    by (simp add: dict_get_def EMISSIEFACTOREN_def sup3_def)
  moreover have "\<forall>tabel.
      (\<forall>k. k \<noteq> ''Benzine (liter)'' \<longrightarrow> map_of tabel k = map_of EMISSIEFACTOREN k) \<longrightarrow>
      bereken_emissies_in tabel g e tarief d = bereken_emissies g e tarief d"
  proof (intro allI impI)
    fix tabel
    assume same: "\<forall>k. k \<noteq> ''Benzine (liter)'' \<longrightarrow> map_of tabel k = map_of EMISSIEFACTOREN k"
    show "bereken_emissies_in tabel g e tarief d = bereken_emissies g e tarief d"
      by (rule benzine_ongebruikt) (simp add: same)
  qed
  moreover have "\<exists>r. genereer_pdf es v t tarief = Inr r \<and>
      factoren_tabel_data r =
        [[''Energiedrager'', ''Emissiefactor'', ''Eenheid''],
         [''Aardgas (m'' @ sup3 @ '')'', ''2.085'', ''kg CO'' @ sub2 @ ''-eq''],
         [''Elektriciteit - Grijze stroom (kWh)'', ''0.536'', ''kg CO'' @ sub2 @ ''-eq''],
         [''Elektriciteit - Groene stroom (kWh)'', ''0.000'', ''kg CO'' @ sub2 @ ''-eq''],
         [''Diesel (liter)'', ''3.256'', ''kg CO'' @ sub2 @ ''-eq''],
         [''Benzine (liter)'', ''2.821'', ''kg CO'' @ sub2 @ ''-eq'']]"
    by (intro exI conjI, rule genereer_pdf_eq)
       (simp only: rapport.select_convs factoren_rijen_waarde)
  moreover have "\<forall>r. document (main (runs None inps) inp) = Some r \<longrightarrow>
      factoren_tabel_data r =
        [[''Energiedrager'', ''Emissiefactor'', ''Eenheid''],
         [''Aardgas (m'' @ sup3 @ '')'', ''2.085'', ''kg CO'' @ sub2 @ ''-eq''],
         [''Elektriciteit - Grijze stroom (kWh)'', ''0.536'', ''kg CO'' @ sub2 @ ''-eq''],
         [''Elektriciteit - Groene stroom (kWh)'', ''0.000'', ''kg CO'' @ sub2 @ ''-eq''],
         [''Diesel (liter)'', ''3.256'', ''kg CO'' @ sub2 @ ''-eq''],
         [''Benzine (liter)'', ''2.821'', ''kg CO'' @ sub2 @ ''-eq'']]"
  proof (intro allI impI)
    fix r
    assume doc: "document (main (runs None inps) inp) = Some r"
    show "factoren_tabel_data r =
        [[''Energiedrager'', ''Emissiefactor'', ''Eenheid''],
         [''Aardgas (m'' @ sup3 @ '')'', ''2.085'', ''kg CO'' @ sub2 @ ''-eq''],
         [''Elektriciteit - Grijze stroom (kWh)'', ''0.536'', ''kg CO'' @ sub2 @ ''-eq''],
         [''Elektriciteit - Groene stroom (kWh)'', ''0.000'', ''kg CO'' @ sub2 @ ''-eq''],
         [''Diesel (liter)'', ''3.256'', ''kg CO'' @ sub2 @ ''-eq''],
         [''Benzine (liter)'', ''2.821'', ''kg CO'' @ sub2 @ ''-eq'']]"
      unfolding document_factoren [OF doc] factoren_rijen_waarde by (rule refl)
  qed
  ultimately show ?thesis
    by (intro conjI)
qed

theorem emissiefactoren_vast_witness:
  "bereken_emissies_in
     [(''Aardgas (m'' @ sup3 @ '')'', 2.085),
      (''Elektriciteit - Grijze stroom (kWh)'', 0.536),
      (''Elektriciteit - Groene stroom (kWh)'', 0.000),
      (''Diesel (liter)'', 3.256)]
     100 300 ''Grijze stroom'' 50 =
   bereken_emissies 100 300 ''Grijze stroom'' 50 \<and>
   factoren_tabel_data
     (projr (genereer_pdf [(''Aardgas'', 208.5)] \<lparr>gas = 100, elektra = 0, diesel = 0\<rparr>
        208.5 ''Grijze stroom'')) =
     [[''Energiedrager'', ''Emissiefactor'', ''Eenheid''],
         [''Aardgas (m'' @ sup3 @ '')'', ''2.085'', ''kg CO'' @ sub2 @ ''-eq''],
         [''Elektriciteit - Grijze stroom (kWh)'', ''0.536'', ''kg CO'' @ sub2 @ ''-eq''],
         [''Elektriciteit - Groene stroom (kWh)'', ''0.000'', ''kg CO'' @ sub2 @ ''-eq''],
         [''Diesel (liter)'', ''3.256'', ''kg CO'' @ sub2 @ ''-eq''],
         [''Benzine (liter)'', ''2.821'', ''kg CO'' @ sub2 @ ''-eq'']]"
proof -
  let ?tabel = "[(''Aardgas (m'' @ sup3 @ '')'', 2.085),
      (''Elektriciteit - Grijze stroom (kWh)'', 0.536),
      (''Elektriciteit - Groene stroom (kWh)'', 0.000),
      (''Diesel (liter)'', 3.256 :: real)]"
  let ?gas = "\<lparr>gas_verbruik = 100, elektra_verbruik = 0, stroom_type = ''Grijze stroom'',
         diesel_verbruik = 0, button = True\<rparr>"
  note inst = emissiefactoren_vast [where g = 100 and e = 300 and tarief = "''Grijze stroom''"
      and d = 50 and inps = "[]" and inp = "?gas" and es = "[]"
      and v = "\<lparr>gas = 0, elektra = 0, diesel = 0\<rparr>" and t = 0]
  have same: "\<forall>k. k \<noteq> ''Benzine (liter)'' \<longrightarrow> map_of ?tabel k = map_of EMISSIEFACTOREN k"
    by (simp add: EMISSIEFACTOREN_def)
  from inst have "\<forall>tabel.
      (\<forall>k. k \<noteq> ''Benzine (liter)'' \<longrightarrow> map_of tabel k = map_of EMISSIEFACTOREN k) \<longrightarrow>
      bereken_emissies_in tabel 100 300 ''Grijze stroom'' 50 =
        bereken_emissies 100 300 ''Grijze stroom'' 50"
    by blast
  with same have first: "bereken_emissies_in ?tabel 100 300 ''Grijze stroom'' 50 =
      bereken_emissies 100 300 ''Grijze stroom'' 50"
    by blast
  have "document (main (runs None []) ?gas) =
      Some (projr (genereer_pdf [(''Aardgas'', 208.5)] \<lparr>gas = 100, elektra = 0, diesel = 0\<rparr>
        208.5 ''Grijze stroom''))"
    using gas_document by (simp add: runs_def)
  moreover from inst have "\<forall>r. document (main (runs None []) ?gas) = Some r \<longrightarrow>
      factoren_tabel_data r =
        [[''Energiedrager'', ''Emissiefactor'', ''Eenheid''],
         [''Aardgas (m'' @ sup3 @ '')'', ''2.085'', ''kg CO'' @ sub2 @ ''-eq''],
         [''Elektriciteit - Grijze stroom (kWh)'', ''0.536'', ''kg CO'' @ sub2 @ ''-eq''],
         [''Elektriciteit - Groene stroom (kWh)'', ''0.000'', ''kg CO'' @ sub2 @ ''-eq''],
         [''Diesel (liter)'', ''3.256'', ''kg CO'' @ sub2 @ ''-eq''],
         [''Benzine (liter)'', ''2.821'', ''kg CO'' @ sub2 @ ''-eq'']]"
    by blast
  ultimately have "factoren_tabel_data
     (projr (genereer_pdf [(''Aardgas'', 208.5)] \<lparr>gas = 100, elektra = 0, diesel = 0\<rparr>
        208.5 ''Grijze stroom'')) =
     [[''Energiedrager'', ''Emissiefactor'', ''Eenheid''],
         [''Aardgas (m'' @ sup3 @ '')'', ''2.085'', ''kg CO'' @ sub2 @ ''-eq''],
         [''Elektriciteit - Grijze stroom (kWh)'', ''0.536'', ''kg CO'' @ sub2 @ ''-eq''],
         [''Elektriciteit - Groene stroom (kWh)'', ''0.000'', ''kg CO'' @ sub2 @ ''-eq''],
         [''Diesel (liter)'', ''3.256'', ''kg CO'' @ sub2 @ ''-eq''],
         [''Benzine (liter)'', ''2.821'', ''kg CO'' @ sub2 @ ''-eq'']]"
    by blast
  with first show ?thesis
    by (rule conjI)
qed

text \<open>
  C4, as the code has it. For a mapping that the calculator returns on values from the
  form, the report is made without raising; when the total of the mapping is positive, the
  numbers shown in the percentage column of its emissions table add up to 100 within 0.1;
  when the total is 0, every cell of the column reads 0.0% and the column adds up to 0.
\<close>

theorem percentages_som:
  assumes "0 \<le> gas_m3" "0 \<le> elektra_kwh" "0 \<le> diesel_liter"
    and "tarief \<in> set stroom_opties"
    and "bereken_emissies gas_m3 elektra_kwh tarief diesel_liter = Inr es"
  shows "\<exists>r. genereer_pdf es v (sum_list (values_of es)) tarief = Inr r \<and>
     (0 < sum_list (values_of es) \<longrightarrow> \<bar>som_percentages r - 100\<bar> \<le> 1 / 10) \<and>
     (sum_list (values_of es) = 0 \<longrightarrow>
        percentage_cellen r = map (\<lambda>x. ''0.0%'') es \<and> som_percentages r = 0)"
proof -
  let ?t = "sum_list (values_of es)"
  obtain r where r: "genereer_pdf es v ?t tarief = Inr r"
    by (simp add: genereer_pdf_eq)
  then have proj: "projr (genereer_pdf es v ?t tarief) = r"
    by simp
  have "\<bar>som_percentages r - 100\<bar> \<le> 1 / 10" if "0 < ?t"
    using som_percentages_positief [OF bereken_emissies_vorm [OF assms] refl that, of v tarief]
    by (simp add: proj)
  moreover have "percentage_cellen r = map (\<lambda>x. ''0.0%'') es \<and> som_percentages r = 0"
    if "?t = 0"
    using percentages_nul [of es v tarief] proj that by simp
  ultimately show ?thesis
    using r by blast
qed

theorem percentages_som_witness:
  "(\<exists>r. genereer_pdf [(''Aardgas'', 208.5), (''Elektriciteit'', 160.8)]
           \<lparr>gas = 100, elektra = 300, diesel = 0\<rparr>
           (sum_list (values_of [(''Aardgas'', 208.5), (''Elektriciteit'', 160.8)]))
           ''Grijze stroom'' = Inr r \<and>
        \<bar>som_percentages r - 100\<bar> \<le> 1 / 10) \<and>
   (\<exists>r. genereer_pdf [(''Elektriciteit'', 0)] \<lparr>gas = 0, elektra = 100, diesel = 0\<rparr>
           (sum_list (values_of [(''Elektriciteit'', 0)])) ''Groene stroom'' = Inr r \<and>
        percentage_cellen r = [''0.0%''] \<and> som_percentages r = 0)"
proof -
  have "bereken_emissies 100 300 ''Grijze stroom'' 0 =
      Inr [(''Aardgas'', 208.5), (''Elektriciteit'', 160.8)]"
    by (simp add: bereken_emissies_eq stroom_opties_def stroom_factor_def)
  from percentages_som [OF _ _ _ _ this, of "\<lparr>gas = 100, elektra = 300, diesel = 0\<rparr>"]
  have "\<exists>r. genereer_pdf [(''Aardgas'', 208.5), (''Elektriciteit'', 160.8)]
           \<lparr>gas = 100, elektra = 300, diesel = 0\<rparr>
           (sum_list (values_of [(''Aardgas'', 208.5), (''Elektriciteit'', 160.8)]))
           ''Grijze stroom'' = Inr r \<and>
        \<bar>som_percentages r - 100\<bar> \<le> 1 / 10"
    by (simp add: stroom_opties_def values_of_def)
  moreover have "bereken_emissies 0 100 ''Groene stroom'' 0 = Inr [(''Elektriciteit'', 0)]"
    by (simp add: bereken_emissies_eq stroom_opties_def stroom_factor_def)
  from percentages_som [OF _ _ _ _ this, of "\<lparr>gas = 0, elektra = 100, diesel = 0\<rparr>"]
  have "\<exists>r. genereer_pdf [(''Elektriciteit'', 0)] \<lparr>gas = 0, elektra = 100, diesel = 0\<rparr>
           (sum_list (values_of [(''Elektriciteit'', 0)])) ''Groene stroom'' = Inr r \<and>
        percentage_cellen r = [''0.0%''] \<and> som_percentages r = 0"
    by (simp add: stroom_opties_def values_of_def)
  ultimately show ?thesis
    by (rule conjI)
qed

text \<open>
  C4 as the specification words it fails for green electricity alone: the calculator
  returns the mapping with the one entry electricity 0, a mapping with a category present,
  and the report made from it, with its total 0, shows 0.0% in its one percentage cell, so
  that the column adds up to 0 and not to 100.
\<close>

theorem percentages_som_counterexample:
  "bereken_emissies 0 100 ''Groene stroom'' 0 = Inr [(''Elektriciteit'', 0)] \<and>
   sum_list (values_of [(''Elektriciteit'', 0)]) = 0 \<and>
   \<not> isl (genereer_pdf [(''Elektriciteit'', 0)] \<lparr>gas = 0, elektra = 100, diesel = 0\<rparr> 0
            ''Groene stroom'') \<and>
   percentage_cellen
     (projr (genereer_pdf [(''Elektriciteit'', 0)] \<lparr>gas = 0, elektra = 100, diesel = 0\<rparr> 0
               ''Groene stroom'')) = [''0.0%''] \<and>
   som_percentages
     (projr (genereer_pdf [(''Elektriciteit'', 0)] \<lparr>gas = 0, elektra = 100, diesel = 0\<rparr> 0
               ''Groene stroom'')) = 0 \<and>
   \<not> \<bar>som_percentages
         (projr (genereer_pdf [(''Elektriciteit'', 0)] \<lparr>gas = 0, elektra = 100, diesel = 0\<rparr> 0
                   ''Groene stroom'')) - 100\<bar> \<le> 1 / 10"
  by (simp add: bereken_emissies_eq stroom_opties_def stroom_factor_def values_of_def
      percentages_nul)
     (simp add: genereer_pdf_eq)

end
